theory Spec2Isabelle
  imports Complex_Main
begin

section \<open>The sample store of pi-home-utils (src/db/db.c, src/db/db.h)\<close>

text \<open>
  The store is a thin layer over an embedded SQL engine. The C functions of db.c are
  embedded as HOL functions; the engine calls they make (prepare, step, finalize, exec,
  open) are embedded as small functions over an explicit database state. Whether an
  engine call fails is not decided by db.c, so every such call takes its fault (or
  \<open>None\<close>) from an environment argument: each return statement of db.c is then a branch
  of the model.

  C \<open>int\<close> values are modelled as \<open>int\<close>; the one place where the width matters, the
  64-bit row id read through \<open>sqlite3_column_int\<close>, has the wrap-around written out.
  The four measurements are modelled as \<open>real\<close> (finite values, which survive the
  float/double conversions of bind and column unchanged).
\<close>

subsection \<open>Data model (db.h)\<close>

datatype sensors_db_mode = SENSORS_DB_PRODUCER | SENSORS_DB_CONSUMER

text \<open>One row of table SensorData, as created by \<open>CREATE_TABLE_SQL\<close>.\<close>

record db_row =
  col_id :: int
  col_timestamp :: string
  col_bmp280_temperature :: real
  col_bmp280_pressure :: real
  col_htu21d_temperature :: real
  col_htu21d_humidity :: real

text \<open>
  The database behind a connection: the rows of SensorData and the AUTOINCREMENT
  counter (the largest row id ever handed out). A file without the table is modelled
  like a file with the empty table.
\<close>

record sqlite3 =
  SensorData :: "db_row list"
  sqlite_sequence :: int

text \<open>\<open>struct sensors_db\<close>.\<close>

record sensors_db =
  db :: sqlite3
  data_limit :: int
  mode :: sensors_db_mode

text \<open>\<open>struct sensors_sample\<close>; \<open>timestamp\<close> is the content of the \<open>char[32]\<close> array.\<close>

record sensors_sample =
  id_field :: int
  timestamp :: string
  bmp280_temperature :: real
  bmp280_pressure :: real
  htu21d_temperature :: real
  htu21d_humidity :: real

subsection \<open>The engine\<close>

datatype sqlite_error =
  SQLITE_ERROR | SQLITE_BUSY | SQLITE_NOMEM | SQLITE_READONLY
  | SQLITE_IOERR | SQLITE_CORRUPT | SQLITE_FULL | SQLITE_CANTOPEN

definition SQLITE_OK :: int where
  "SQLITE_OK = 0"

fun result_code :: "sqlite_error \<Rightarrow> int" where
  "result_code SQLITE_ERROR = 1"
| "result_code SQLITE_BUSY = 5"
| "result_code SQLITE_NOMEM = 7"
| "result_code SQLITE_READONLY = 8"
| "result_code SQLITE_IOERR = 10"
| "result_code SQLITE_CORRUPT = 11"
| "result_code SQLITE_FULL = 13"
| "result_code SQLITE_CANTOPEN = 14"

fun sqlite3_errmsg :: "sqlite_error \<Rightarrow> string" where
  "sqlite3_errmsg SQLITE_ERROR = ''SQL logic error''"
| "sqlite3_errmsg SQLITE_BUSY = ''database is locked''"
| "sqlite3_errmsg SQLITE_NOMEM = ''out of memory''"
| "sqlite3_errmsg SQLITE_READONLY = ''attempt to write a readonly database''"
| "sqlite3_errmsg SQLITE_IOERR = ''disk I/O error''"
| "sqlite3_errmsg SQLITE_CORRUPT = ''database disk image is malformed''"
| "sqlite3_errmsg SQLITE_FULL = ''database or disk is full''"
| "sqlite3_errmsg SQLITE_CANTOPEN = ''unable to open database file''"

text \<open>The result code of a call that either works or hits the given fault.\<close>

fun rc_of :: "sqlite_error option \<Rightarrow> int" where
  "rc_of None = SQLITE_OK"
| "rc_of (Some e) = result_code e"

text \<open>\<open>sqlite3_prepare_v2\<close>: compiling a statement changes nothing in the database.\<close>

definition sqlite3_prepare_v2 :: "sqlite_error option \<Rightarrow> int" where
  "sqlite3_prepare_v2 fault = rc_of fault"

text \<open>What one \<open>sqlite3_step\<close> reports.\<close>

datatype step_result = SQLITE_ROW db_row | SQLITE_DONE | SQLITE_FAIL sqlite_error

text \<open>
  \<open>sqlite3_finalize\<close> returns \<open>SQLITE_OK\<close> when the most recent evaluation of the
  statement met no error, and that evaluation's error code otherwise.
\<close>

fun sqlite3_finalize :: "step_result \<Rightarrow> int" where
  "sqlite3_finalize (SQLITE_FAIL e) = result_code e"
| "sqlite3_finalize _ = SQLITE_OK"

text \<open>
  The INSERT of \<open>sensors_db_store_data\<close>. The id is one more than the largest row id
  that ever existed in the table (AUTOINCREMENT); the timestamp is the column default
  \<open>CURRENT_TIMESTAMP\<close>, supplied by the environment.
\<close>

definition next_rowid :: "sqlite3 \<Rightarrow> int" where
  "next_rowid d = max (sqlite_sequence d) (fold max (map col_id (SensorData d)) 0) + 1"

definition insert_row :: "sqlite3 \<Rightarrow> string \<Rightarrow> real \<Rightarrow> real \<Rightarrow> real \<Rightarrow> real \<Rightarrow> sqlite3" where
  "insert_row d now t1 p t2 h =
     (let i = next_rowid d
      in d\<lparr>SensorData := SensorData d @
             [\<lparr>col_id = i, col_timestamp = now, col_bmp280_temperature = t1,
               col_bmp280_pressure = p, col_htu21d_temperature = t2,
               col_htu21d_humidity = h\<rparr>],
           sqlite_sequence := i\<rparr>)"

text \<open>
  Stepping the INSERT statement: it either inserts the row and reports
  \<open>SQLITE_DONE\<close>, or fails and leaves the table as it was.
\<close>

fun step_insert ::
  "sqlite3 \<Rightarrow> sqlite_error option \<Rightarrow> string \<Rightarrow> real \<Rightarrow> real \<Rightarrow> real \<Rightarrow> real
     \<Rightarrow> step_result \<times> sqlite3" where
  "step_insert d (Some e) now t1 p t2 h = (SQLITE_FAIL e, d)"
| "step_insert d None now t1 p t2 h = (SQLITE_DONE, insert_row d now t1 p t2 h)"

text \<open>
  \<open>SELECT ... FROM SensorData ORDER BY id DESC LIMIT n\<close>; a negative limit is no
  limit.
\<close>

definition select_desc_limit :: "db_row list \<Rightarrow> int \<Rightarrow> db_row list" where
  "select_desc_limit rows n =
     (let ordered = rev (sort_key col_id rows)
      in if n < 0 then ordered else take (nat n) ordered)"

text \<open>
  \<open>DELETE FROM SensorData WHERE id NOT IN (SELECT id FROM SensorData ORDER BY id DESC
  LIMIT n)\<close>, run by \<open>sqlite3_exec\<close>: a failing statement deletes nothing.
\<close>

definition delete_not_in_latest :: "db_row list \<Rightarrow> int \<Rightarrow> db_row list" where
  "delete_not_in_latest rows n =
     filter (\<lambda>r. col_id r \<in> set (map col_id (select_desc_limit rows n))) rows"

fun sqlite3_exec_trim :: "sqlite3 \<Rightarrow> int \<Rightarrow> sqlite_error option \<Rightarrow> int \<times> sqlite3" where
  "sqlite3_exec_trim d n (Some e) = (result_code e, d)"
| "sqlite3_exec_trim d n None =
     (SQLITE_OK, d\<lparr>SensorData := delete_not_in_latest (SensorData d) n\<rparr>)"

text \<open>
  A compiled SELECT: the rows it has still to deliver and the engine fault that lies
  ahead, if any, as the number of steps that still work before it and its error.
\<close>

type_synonym sqlite3_stmt = "db_row list \<times> (nat \<times> sqlite_error) option"

fun sqlite3_step :: "sqlite3_stmt \<Rightarrow> step_result \<times> sqlite3_stmt" where
  "sqlite3_step (rs, Some (0, e)) = (SQLITE_FAIL e, (rs, Some (0, e)))"
| "sqlite3_step ([], f) = (SQLITE_DONE, ([], f))"
| "sqlite3_step (r # rs, None) = (SQLITE_ROW r, (rs, None))"
| "sqlite3_step (r # rs, Some (Suc k, e)) = (SQLITE_ROW r, (rs, Some (k, e)))"

text \<open>
  \<open>sqlite3_column_int\<close> on the id column: the 64-bit row id cut to the low 32 bits,
  read as a signed C \<open>int\<close>.
\<close>

definition sqlite3_column_int :: "int \<Rightarrow> int" where
  "sqlite3_column_int i = (i + 2 ^ 31) mod 2 ^ 32 - 2 ^ 31"

subsection \<open>String copy\<close>

text \<open>
  The text of a column reaches the C code as a NUL-terminated string: the characters
  before the first NUL.
\<close>

definition NUL :: char where
  "NUL = CHR 0x00"

definition c_str :: "string \<Rightarrow> string" where
  "c_str s = takeWhile (\<lambda>c. c \<noteq> NUL) s"

text \<open>
  \<open>strncpy(dst, src, n)\<close> as the new content of the \<open>n\<close> bytes of \<open>dst\<close>: the first
  \<open>n\<close> characters of the source string, padded with NUL up to \<open>n\<close> when the source is
  shorter. No NUL is written when the source has \<open>n\<close> characters or more.
\<close>

definition strncpy :: "string \<Rightarrow> nat \<Rightarrow> string" where
  "strncpy src n = take n (c_str src) @ replicate (n - length (c_str src)) NUL"

text \<open>
  The six assignments that copy the current row into \<open>*out\<close>, shared by
  \<open>sensors_db_read_latest\<close> and \<open>sensors_db_read_n\<close>; \<open>sizeof(out->timestamp)\<close> is
  32.
\<close>

definition copy_columns :: "db_row \<Rightarrow> sensors_sample" where
  "copy_columns r =
     \<lparr>id_field = sqlite3_column_int (col_id r),
      timestamp = strncpy (col_timestamp r) 32,
      bmp280_temperature = col_bmp280_temperature r,
      bmp280_pressure = col_bmp280_pressure r,
      htu21d_temperature = col_htu21d_temperature r,
      htu21d_humidity = col_htu21d_humidity r\<rparr>"

subsection \<open>sensors_db_open\<close>

text \<open>
  The file system maps a path to the database stored there. The environment of an open
  call says whether \<open>calloc\<close> fails, whether \<open>sqlite3_open_v2\<close> fails and whether the
  \<open>CREATE TABLE IF NOT EXISTS\<close> statement fails. The result is the handle (\<open>None\<close> for
  \<open>NULL\<close>), the file system afterwards and the lines printed on stderr.
\<close>

record open_env =
  calloc_fails :: bool
  open_fault :: "sqlite_error option"
  create_fault :: "sqlite_error option"

definition newline :: string where
  "newline = [CHR 0x0A]"

definition empty_database :: sqlite3 where
  "empty_database = \<lparr>SensorData = [], sqlite_sequence = 0\<rparr>"

definition sensors_db_open ::
  "(string \<rightharpoonup> sqlite3) \<Rightarrow> string \<Rightarrow> sensors_db_mode \<Rightarrow> int \<Rightarrow> open_env
     \<Rightarrow> sensors_db option \<times> (string \<rightharpoonup> sqlite3) \<times> string list" where
  "sensors_db_open fs db_file m limit env =
     (if calloc_fails env then (None, fs, [])
      else case m of
        SENSORS_DB_CONSUMER \<Rightarrow>
          (case fs db_file of
             None \<Rightarrow> (None, fs, [''Database does not exist: '' @ db_file @ newline])
           | Some d \<Rightarrow>
               (case open_fault env of
                  Some e \<Rightarrow> (None, fs, [''Cannot open DB: '' @ sqlite3_errmsg e @ newline])
                | None \<Rightarrow> (Some \<lparr>db = d, data_limit = limit, mode = m\<rparr>, fs, [])))
      | SENSORS_DB_PRODUCER \<Rightarrow>
          (case open_fault env of
             Some e \<Rightarrow> (None, fs, [''Cannot open DB: '' @ sqlite3_errmsg e @ newline])
           | None \<Rightarrow>
               (let d = (case fs db_file of None \<Rightarrow> empty_database | Some d0 \<Rightarrow> d0);
                    fs' = fs(db_file \<mapsto> d)
                in case create_fault env of
                     Some e \<Rightarrow> (None, fs', [''SQL error: '' @ sqlite3_errmsg e @ newline])
                   | None \<Rightarrow> (Some \<lparr>db = d, data_limit = limit, mode = m\<rparr>, fs', []))))"

subsection \<open>sensors_db_store_data\<close>

text \<open>
  The environment of a store call: the faults of prepare, of the step of the INSERT and
  of the trim statement, and the engine's clock. The result is the return value, the
  handle afterwards and the lines printed on stderr. As in db.c, the value returned by
  \<open>sqlite3_step\<close> is not looked at: the outcome of the INSERT is read from
  \<open>sqlite3_finalize\<close>; and the value returned by the \<open>sqlite3_exec\<close> of the trim
  is dropped.
\<close>

record store_env =
  ins_prepare_fault :: "sqlite_error option"
  ins_step_fault :: "sqlite_error option"
  trim_fault :: "sqlite_error option"
  current_timestamp :: string

definition sensors_db_store_data ::
  "sensors_db \<Rightarrow> real \<Rightarrow> real \<Rightarrow> real \<Rightarrow> real \<Rightarrow> store_env
     \<Rightarrow> int \<times> sensors_db \<times> string list" where
  "sensors_db_store_data self bmp280_temp bmp280_press htu21d_temp htu21d_hum env =
     (if mode self \<noteq> SENSORS_DB_PRODUCER then (- 1, self, [''DB is read-only'' @ newline])
      else if sqlite3_prepare_v2 (ins_prepare_fault env) \<noteq> SQLITE_OK then (- 1, self, [])
      else
        (let (res, d) = step_insert (db self) (ins_step_fault env) (current_timestamp env)
                          bmp280_temp bmp280_press htu21d_temp htu21d_hum;
             rc = sqlite3_finalize res
         in if rc \<noteq> SQLITE_OK then (- 1, self\<lparr>db := d\<rparr>, [])
            else if data_limit self > 0
              then (0, self\<lparr>db := snd (sqlite3_exec_trim d (data_limit self) (trim_fault env))\<rparr>, [])
              else (0, self\<lparr>db := d\<rparr>, [])))"

subsection \<open>sensors_db_read_latest\<close>

text \<open>
  The environment of a read call: the fault of prepare, and the fault met while
  stepping (after how many working steps, and which error). The result is the return
  value and the content of \<open>*out\<close> afterwards.
\<close>

record read_env =
  sel_prepare_fault :: "sqlite_error option"
  sel_step_fault :: "(nat \<times> sqlite_error) option"

definition sensors_db_read_latest ::
  "sensors_db \<Rightarrow> sensors_sample \<Rightarrow> read_env \<Rightarrow> int \<times> sensors_sample" where
  "sensors_db_read_latest self out env =
     (if sqlite3_prepare_v2 (sel_prepare_fault env) \<noteq> SQLITE_OK then (- 1, out)
      else
        (let stmt = (select_desc_limit (SensorData (db self)) 1, sel_step_fault env)
         in case fst (sqlite3_step stmt) of
              SQLITE_ROW r \<Rightarrow> (sqlite3_finalize (SQLITE_ROW r), copy_columns r)
            | SQLITE_DONE \<Rightarrow> (- 1, out)
            | SQLITE_FAIL e \<Rightarrow> (- 1, out)))"

subsection \<open>sensors_db_read_n\<close>

text \<open>
  The row loop. \<open>out_array\<close> is the caller's memory seen as cells indexed from the
  pointer, so that a write is recorded wherever it lands. The loop returns the count,
  the memory and the statement as the loop leaves it. The loop is left on the first
  step that does not deliver a row, be it the end of the rows or an error, and after
  the copy that makes \<open>count >= max_samples\<close> true. In \<open>sensors_db_read_n\<close> the value
  returned by \<open>sqlite3_finalize\<close> is dropped.
\<close>

function read_n_loop ::
  "sqlite3_stmt \<Rightarrow> int \<Rightarrow> nat \<Rightarrow> (nat \<rightharpoonup> sensors_sample)
     \<Rightarrow> nat \<times> (nat \<rightharpoonup> sensors_sample) \<times> sqlite3_stmt" where
  "read_n_loop stmt max_samples count out_array =
     (case sqlite3_step stmt of
        (SQLITE_ROW r, stmt') \<Rightarrow>
          (if max_samples \<le> int (Suc count)
           then (Suc count, out_array(count \<mapsto> copy_columns r), stmt')
           else read_n_loop stmt' max_samples (Suc count) (out_array(count \<mapsto> copy_columns r)))
      | (SQLITE_DONE, stmt') \<Rightarrow> (count, out_array, stmt')
      | (SQLITE_FAIL e, stmt') \<Rightarrow> (count, out_array, stmt'))"
  by pat_completeness auto
termination
proof (relation "measure (\<lambda>(stmt, m, c, out). length (fst stmt))", goal_cases)
  case 1
  show ?case by simp
next
  case (2 stmt max_samples count out_array res r stmt')
  then show ?case
    by (cases stmt rule: sqlite3_step.cases) auto
qed

declare read_n_loop.simps [simp del]

definition sensors_db_read_n ::
  "sensors_db \<Rightarrow> (nat \<rightharpoonup> sensors_sample) \<Rightarrow> int \<Rightarrow> read_env
     \<Rightarrow> int \<times> (nat \<rightharpoonup> sensors_sample)" where
  "sensors_db_read_n self out_array max_samples env =
     (if sqlite3_prepare_v2 (sel_prepare_fault env) \<noteq> SQLITE_OK then (- 1, out_array)
      else
        (let stmt = (select_desc_limit (SensorData (db self)) max_samples, sel_step_fault env);
             (count, out_array', stmt') = read_n_loop stmt max_samples 0 out_array
         in (int count, out_array')))"

subsection \<open>Callers and example states\<close>

text \<open>
  A caller that makes a sequence of store calls on one handle, each with its four
  measurements and its environment, and collects the return values.
\<close>

fun store_all ::
  "sensors_db \<Rightarrow> ((real \<times> real \<times> real \<times> real) \<times> store_env) list \<Rightarrow> int list \<times> sensors_db" where
  "store_all self [] = ([], self)"
| "store_all self (((t1, p, t2, h), env) # calls) =
     (case sensors_db_store_data self t1 p t2 h env of
        (rc, self', err) \<Rightarrow>
          (case store_all self' calls of (rcs, self'') \<Rightarrow> (rc # rcs, self'')))"

text \<open>The measurements held by a row.\<close>

definition measurements :: "db_row \<Rightarrow> real \<times> real \<times> real \<times> real" where
  "measurements r =
     (col_bmp280_temperature r, col_bmp280_pressure r, col_htu21d_temperature r,
      col_htu21d_humidity r)"

text \<open>
  The number of rows the loop of \<open>sensors_db_read_n\<close> copies when no step fails: it
  copies before it compares, so it copies one row whenever there is one.
\<close>

definition consumed :: "nat \<Rightarrow> int \<Rightarrow> nat \<Rightarrow> nat" where
  "consumed len m c = min len (max 1 (nat (m - int c)))"

definition ex_row :: "int \<Rightarrow> string \<Rightarrow> db_row" where
  "ex_row i ts =
     \<lparr>col_id = i, col_timestamp = ts, col_bmp280_temperature = 20.5,
      col_bmp280_pressure = 1013.2, col_htu21d_temperature = 21,
      col_htu21d_humidity = 55.3\<rparr>"

definition ex_two_rows :: sqlite3 where
  "ex_two_rows =
     \<lparr>SensorData = [ex_row 1 ''2026-10-30 14:05:00'', ex_row 2 ''2026-10-30 14:05:01''],
      sqlite_sequence = 2\<rparr>"

definition ex_long_timestamp :: sqlite3 where
  "ex_long_timestamp =
     \<lparr>SensorData = [ex_row 1 ''2026-10-30 14:05:00.000000+00:00''], sqlite_sequence = 1\<rparr>"

definition ex_producer :: "int \<Rightarrow> sensors_db" where
  "ex_producer limit = \<lparr>db = ex_two_rows, data_limit = limit, mode = SENSORS_DB_PRODUCER\<rparr>"

definition ex_consumer :: "sqlite3 \<Rightarrow> sensors_db" where
  "ex_consumer d = \<lparr>db = d, data_limit = 0, mode = SENSORS_DB_CONSUMER\<rparr>"

definition ex_store_env :: "sqlite_error option \<Rightarrow> store_env" where
  "ex_store_env f =
     \<lparr>ins_prepare_fault = None, ins_step_fault = None, trim_fault = f,
      current_timestamp = ''2026-10-30 14:05:02''\<rparr>"

definition ex_read_env :: "sqlite_error option \<Rightarrow> (nat \<times> sqlite_error) option \<Rightarrow> read_env" where
  "ex_read_env pf sf = \<lparr>sel_prepare_fault = pf, sel_step_fault = sf\<rparr>"

definition ex_open_env :: open_env where
  "ex_open_env = \<lparr>calloc_fails = False, open_fault = None, create_fault = None\<rparr>"

definition ex_sample :: sensors_sample where
  "ex_sample =
     \<lparr>id_field = 0, timestamp = replicate 32 NUL, bmp280_temperature = 0,
      bmp280_pressure = 0, htu21d_temperature = 0, htu21d_humidity = 0\<rparr>"

definition ex_fresh :: sensors_db where
  "ex_fresh = \<lparr>db = empty_database, data_limit = 0, mode = SENSORS_DB_PRODUCER\<rparr>"

definition ex_calls :: "((real \<times> real \<times> real \<times> real) \<times> store_env) list" where
  "ex_calls =
     [((20.5, 1013.2, 21, 55.3), ex_store_env None), ((19, 1000, 20, 60), ex_store_env None)]"

definition ex_stored :: sensors_db where
  "ex_stored =
     \<lparr>db = \<lparr>SensorData =
              [ex_row 1 ''2026-10-30 14:05:02'',
               \<lparr>col_id = 2, col_timestamp = ''2026-10-30 14:05:02'',
                col_bmp280_temperature = 19, col_bmp280_pressure = 1000,
                col_htu21d_temperature = 20, col_htu21d_humidity = 60\<rparr>],
            sqlite_sequence = 2\<rparr>,
      data_limit = 0, mode = SENSORS_DB_PRODUCER\<rparr>"

definition ex_near_wrap :: sqlite3 where
  "ex_near_wrap = \<lparr>SensorData = [], sqlite_sequence = 2147483646\<rparr>"

definition ex_wrap_fresh :: sensors_db where
  "ex_wrap_fresh = \<lparr>db = ex_near_wrap, data_limit = 0, mode = SENSORS_DB_PRODUCER\<rparr>"

definition ex_open_fails :: open_env where
  "ex_open_fails =
     \<lparr>calloc_fails = False, open_fault = Some SQLITE_CANTOPEN, create_fault = None\<rparr>"

section \<open>Properties\<close>

subsection \<open>Result codes\<close>

lemma result_code_not_OK: "result_code e \<noteq> SQLITE_OK"
  by (cases e) (simp_all add: SQLITE_OK_def)

lemma prepare_OK_iff: "(sqlite3_prepare_v2 f = SQLITE_OK) = (f = None)"
  by (cases f) (simp_all add: sqlite3_prepare_v2_def result_code_not_OK)

subsection \<open>The row loop\<close>

lemma read_n_loop_Nil: "read_n_loop ([], f) m c out = (c, out, ([], f))"
  by (cases "([], f) :: sqlite3_stmt" rule: sqlite3_step.cases)
     (simp_all add: read_n_loop.simps)

lemma read_n_loop_Cons:
  "read_n_loop (r # rs, None) m c out =
     (if m \<le> int (Suc c) then (Suc c, out(c \<mapsto> copy_columns r), (rs, None))
      else read_n_loop (rs, None) m (Suc c) (out(c \<mapsto> copy_columns r)))"
  by (subst read_n_loop.simps) simp

lemma read_n_loop_no_fault:
  "read_n_loop (rs, None) m c out =
     (c + consumed (length rs) m c,
      (\<lambda>i. if c \<le> i \<and> i < c + consumed (length rs) m c
           then Some (copy_columns (rs ! (i - c))) else out i),
      (drop (consumed (length rs) m c) rs, None))"
proof (induction rs arbitrary: c out)
  case Nil
  show ?case by (auto simp: read_n_loop_Nil consumed_def fun_eq_iff)
next
  case (Cons r rs)
  show ?case
  proof (cases "m \<le> int (Suc c)")
    case True
    then have k: "consumed (length (r # rs)) m c = 1"
      by (simp add: consumed_def)
    show ?thesis
      unfolding k using True by (auto simp: read_n_loop_Cons fun_eq_iff)
  next
    case False
    then have k: "consumed (length (r # rs)) m c = Suc (consumed (length rs) m (Suc c))"
      by (simp add: consumed_def)
    show ?thesis
      unfolding k using False
      by (auto simp: read_n_loop_Cons Cons.IH fun_eq_iff nth_Cons' Suc_diff_le)
  qed
qed

lemma sqlite3_step_first_row:
  "\<forall>e. f \<noteq> Some (0, e) \<Longrightarrow> \<exists>f'. sqlite3_step (r # rs, f) = (SQLITE_ROW r, (rs, f'))"
  by (cases "(r # rs, f)" rule: sqlite3_step.cases) auto

lemma length_select_desc_limit:
  "length (select_desc_limit rows n) = (if n < 0 then length rows else min (nat n) (length rows))"
  by (simp add: select_desc_limit_def min.commute)

lemma read_n_no_fault:
  assumes "sel_prepare_fault env = None" and "sel_step_fault env = None"
  shows "sensors_db_read_n self out n env =
     (int (consumed (length (select_desc_limit (SensorData (db self)) n)) n 0),
      (\<lambda>i. if i < consumed (length (select_desc_limit (SensorData (db self)) n)) n 0
           then Some (copy_columns (select_desc_limit (SensorData (db self)) n ! i))
           else out i))"
  using assms
  by (simp add: sensors_db_read_n_def prepare_OK_iff read_n_loop_no_fault cong: if_cong)

lemma read_n_count_nonneg:
  assumes "0 \<le> max_samples"
    and "sel_prepare_fault env = None" and "sel_step_fault env = None"
  shows "fst (sensors_db_read_n self out_array max_samples env)
           = min max_samples (int (length (SensorData (db self))))
       \<and> (\<forall>i. snd (sensors_db_read_n self out_array max_samples env) i =
             (if int i < min max_samples (int (length (SensorData (db self))))
              then Some (copy_columns (select_desc_limit (SensorData (db self)) max_samples ! i))
              else out_array i))"
proof -
  let ?rows = "SensorData (db self)"
  have k: "int (consumed (length (select_desc_limit ?rows max_samples)) max_samples 0)
             = min max_samples (int (length ?rows))"
    using assms(1) by (auto simp: consumed_def length_select_desc_limit)
  have k': "\<And>i. (i < consumed (length (select_desc_limit ?rows max_samples)) max_samples 0)
             = (int i < min max_samples (int (length ?rows)))"
    using k by linarith
  show ?thesis
    using k by (simp add: read_n_no_fault [OF assms(2,3)] k')
qed

subsection \<open>The timestamp copy\<close>

lemma length_strncpy: "length (strncpy src n) = n"
  by (simp add: strncpy_def)

lemma c_str_append_NUL: "NUL \<notin> set s \<Longrightarrow> c_str (s @ NUL # t) = s"
  by (induction s) (auto simp: c_str_def)

lemma strncpy_terminated:
  assumes "length (c_str src) < n"
  shows "c_str (strncpy src n) = c_str src"
proof -
  have "NUL \<notin> set (c_str src)"
    unfolding c_str_def by (auto dest: set_takeWhileD)
  moreover obtain k where "n - length (c_str src) = Suc k"
    using assms by (metis Suc_diff_Suc)
  ultimately show ?thesis
    using assms by (simp add: strncpy_def c_str_append_NUL)
qed

subsection \<open>Row ids and ordering\<close>

lemma fold_max_ge: "(a::int) \<le> fold max xs a \<and> (\<forall>x\<in>set xs. x \<le> fold max xs a)"
proof (induction xs arbitrary: a)
  case Nil
  show ?case by simp
next
  case (Cons y ys)
  from Cons.IH [of "max y a"] show ?case by auto
qed

lemma next_rowid_greater: "r \<in> set (SensorData d) \<Longrightarrow> col_id r < next_rowid d"
  using fold_max_ge [of 0 "map col_id (SensorData d)"]
  by (fastforce simp: next_rowid_def)

lemma insort_key_append:
  "\<forall>y\<in>set ys. f x \<le> f y \<Longrightarrow> insort_key f x (xs @ ys) = insort_key f x xs @ ys"
  by (induction xs) (auto simp: insort_is_Cons)

lemma sort_key_append:
  assumes "sorted (map f ys)" and "\<forall>x\<in>set xs. \<forall>y\<in>set ys. f x \<le> f y"
  shows "sort_key f (xs @ ys) = sort_key f xs @ ys"
  using assms(2)
proof (induction xs)
  case Nil
  show ?case using assms(1) by (simp add: sort_key_id_if_sorted)
next
  case (Cons x xs)
  then show ?case by (simp add: insort_key_append)
qed

lemma desc_ids_strict:
  assumes "distinct (map col_id rows)"
  shows "sorted_wrt (>) (map col_id (rev (sort_key col_id rows)))"
proof -
  have "distinct (map col_id (sort_key col_id rows))"
    using assms by (simp add: distinct_map)
  then have "sorted_wrt (<) (map col_id (sort_key col_id rows))"
    by (simp add: strict_sorted_iff)
  then show ?thesis
    unfolding rev_map [symmetric] sorted_wrt_rev .
qed

lemma take_drop_desc:
  assumes "sorted_wrt (>) (ids :: int list)"
  shows "\<forall>x\<in>set (take n ids). \<forall>y\<in>set (drop n ids). y < x"
proof -
  from assms have "sorted_wrt (>) (take n ids @ drop n ids)" by simp
  then show ?thesis unfolding sorted_wrt_append by auto
qed

subsection \<open>The trim statement\<close>

lemma delete_not_in_latest_props:
  assumes d: "distinct (map col_id rows)" and n: "0 \<le> n"
  shows "length (delete_not_in_latest rows n) = min (nat n) (length rows)"
    and "\<forall>r\<in>set (delete_not_in_latest rows n).
           \<forall>q\<in>set rows - set (delete_not_in_latest rows n). col_id q < col_id r"
proof -
  let ?ids = "map col_id (rev (sort_key col_id rows))"
  let ?keep = "take (nat n) ?ids"
  have sel: "map col_id (select_desc_limit rows n) = ?keep"
    using n by (simp add: select_desc_limit_def take_map)
  have strict: "sorted_wrt (>) ?ids" by (rule desc_ids_strict [OF d])
  have set_ids: "set ?ids = set (map col_id rows)" by simp
  have dist_ids: "distinct ?ids"
    using strict strict_sorted_iff sorted_wrt_rev
    by (metis d distinct_map distinct_rev distinct_sort set_rev set_sort)
  have "length (delete_not_in_latest rows n)
          = length (filter (\<lambda>i. i \<in> set ?keep) (map col_id rows))"
    unfolding delete_not_in_latest_def sel by (simp add: filter_map comp_def)
  also have "\<dots> = card ({i. i \<in> set ?keep} \<inter> set (map col_id rows))"
    by (rule distinct_length_filter [OF d])
  also have "{i. i \<in> set ?keep} \<inter> set (map col_id rows) = set ?keep"
    using set_take_subset [of "nat n" ?ids] set_ids by auto
  also have "card (set ?keep) = length ?keep"
    using dist_ids by (simp add: distinct_card)
  finally show "length (delete_not_in_latest rows n) = min (nat n) (length rows)"
    by (simp add: min.commute)
  show "\<forall>r\<in>set (delete_not_in_latest rows n).
           \<forall>q\<in>set rows - set (delete_not_in_latest rows n). col_id q < col_id r"
  proof (intro ballI)
    fix r q
    assume r: "r \<in> set (delete_not_in_latest rows n)"
      and q: "q \<in> set rows - set (delete_not_in_latest rows n)"
    from r have rk: "col_id r \<in> set ?keep"
      unfolding delete_not_in_latest_def sel by simp
    from q have "col_id q \<notin> set ?keep" and "col_id q \<in> set ?ids"
      unfolding delete_not_in_latest_def sel by auto
    then have "col_id q \<in> set (drop (nat n) ?ids)"
      by (metis Un_iff append_take_drop_id set_append)
    with rk take_drop_desc [OF strict, of "nat n"] show "col_id q < col_id r"
      by blast
  qed
qed

subsection \<open>Store calls\<close>

lemma store_data_success:
  assumes "sensors_db_store_data self t1 p t2 h env = (0, self', err)"
  shows "mode self = SENSORS_DB_PRODUCER"
    and "self' = self\<lparr>db :=
           if 0 < data_limit self
           then snd (sqlite3_exec_trim (insert_row (db self) (current_timestamp env) t1 p t2 h)
                       (data_limit self) (trim_fault env))
           else insert_row (db self) (current_timestamp env) t1 p t2 h\<rparr>"
  using assms
  by (cases "ins_step_fault env";
      auto simp: sensors_db_store_data_def result_code_not_OK split: if_splits)+

lemma SensorData_insert_row:
  "SensorData (insert_row d now t1 p t2 h) =
     SensorData d @
       [\<lparr>col_id = next_rowid d, col_timestamp = now, col_bmp280_temperature = t1,
         col_bmp280_pressure = p, col_htu21d_temperature = t2, col_htu21d_humidity = h\<rparr>]"
  by (simp add: insert_row_def Let_def)

lemma distinct_insert_row:
  "distinct (map col_id (SensorData d)) \<Longrightarrow>
   distinct (map col_id (SensorData (insert_row d now t1 p t2 h)))"
  by (auto simp: SensorData_insert_row dest: next_rowid_greater)

lemma store_all_rows:
  assumes "mode self = SENSORS_DB_PRODUCER" and "data_limit self \<le> 0"
    and "store_all self calls = (rcs, self')" and "\<forall>rc\<in>set rcs. rc = 0"
  shows "\<exists>new. SensorData (db self') = SensorData (db self) @ new \<and>
           map measurements new = map fst calls \<and>
           sorted_wrt (<) (map col_id new) \<and>
           (\<forall>r\<in>set (SensorData (db self)). \<forall>q\<in>set new. col_id r < col_id q)"
  using assms
proof (induction calls arbitrary: self rcs)
  case Nil
  then show ?case by simp
next
  case (Cons c calls)
  obtain t1 p t2 h env where c: "c = ((t1, p, t2, h), env)"
    by (metis prod.exhaust)
  obtain rc s1 err where st: "sensors_db_store_data self t1 p t2 h env = (rc, s1, err)"
    by (metis prod.exhaust)
  obtain rcs1 where rest: "store_all s1 calls = (rcs1, self')" and rcs: "rcs = rc # rcs1"
    using Cons.prems(3) c st by (auto split: prod.splits)
  from rcs Cons.prems(4) have rc0: "rc = 0" and all0: "\<forall>rc\<in>set rcs1. rc = 0"
    by auto
  let ?d1 = "insert_row (db self) (current_timestamp env) t1 p t2 h"
  let ?nr = "\<lparr>col_id = next_rowid (db self), col_timestamp = current_timestamp env,
               col_bmp280_temperature = t1, col_bmp280_pressure = p,
               col_htu21d_temperature = t2, col_htu21d_humidity = h\<rparr>"
  from store_data_success(2) [OF st [unfolded rc0]] Cons.prems(2)
  have s1: "s1 = self\<lparr>db := ?d1\<rparr>" by simp
  then have m1: "mode s1 = SENSORS_DB_PRODUCER" and l1: "data_limit s1 \<le> 0"
    and rows1: "SensorData (db s1) = SensorData (db self) @ [?nr]"
    using Cons.prems(1,2) by (simp_all add: SensorData_insert_row)
  from Cons.IH [OF m1 l1 rest all0] obtain new where
    n1: "SensorData (db self') = SensorData (db s1) @ new"
    and n2: "map measurements new = map fst calls"
    and n3: "sorted_wrt (<) (map col_id new)"
    and n4: "\<forall>r\<in>set (SensorData (db s1)). \<forall>q\<in>set new. col_id r < col_id q"
    by blast
  have "SensorData (db self') = SensorData (db self) @ (?nr # new)"
    using n1 rows1 by simp
  moreover have "map measurements (?nr # new) = map fst (c # calls)"
    using n2 c by (simp add: measurements_def)
  moreover have "sorted_wrt (<) (map col_id (?nr # new))"
    using n3 n4 rows1 by auto
  moreover have "\<forall>r\<in>set (SensorData (db self)). \<forall>q\<in>set (?nr # new). col_id r < col_id q"
    using n4 rows1 next_rowid_greater [of _ "db self"] by auto
  ultimately show ?case by blast
qed

lemma select_desc_limit_append:
  assumes "sorted_wrt (<) (map col_id new)"
    and "\<forall>r\<in>set old. \<forall>q\<in>set new. col_id r < col_id q"
  shows "select_desc_limit (old @ new) (int (length new)) = rev new"
proof -
  have "sorted (map col_id new)"
    using assms(1) by (simp add: strict_sorted_iff)
  moreover have "\<forall>r\<in>set old. \<forall>q\<in>set new. col_id r \<le> col_id q"
    using assms(2) by (simp add: less_imp_le)
  ultimately have "sort_key col_id (old @ new) = sort_key col_id old @ new"
    by (rule sort_key_append)
  then show ?thesis
    by (simp add: select_desc_limit_def)
qed

lemma sqlite3_column_int_in_range:
  "- (2 ^ 31) \<le> i \<Longrightarrow> i < 2 ^ 31 \<Longrightarrow> sqlite3_column_int i = i"
  by (simp add: sqlite3_column_int_def)

lemma sensors_db_open_Some:
  assumes "sensors_db_open fs db_file m limit oenv = (Some self, fs', err)"
  shows "mode self = m" and "data_limit self = limit"
  using assms
  by (auto simp: sensors_db_open_def Let_def
        split: if_splits sensors_db_mode.splits option.splits)

subsection \<open>Claims\<close>

text \<open>
  C1 (invariants), as amended. The claim as written, that after every successful
  \<open>sensors_db_store_data\<close> on a handle with limit \<open>L > 0\<close> the table has at most
  \<open>L\<close> rows, fails when the trim statement fails: its result is ignored and the call
  still returns 0. Here the limit is 2, the table holds two rows, the trim meets
  \<open>SQLITE_BUSY\<close>, and three rows remain.
\<close>

theorem C1_counterexample:
  "fst (sensors_db_store_data (ex_producer 2) 20.5 1013.2 21 55.3
          (ex_store_env (Some SQLITE_BUSY))) = 0 \<and>
   \<not> int (length (SensorData (db (fst (snd
          (sensors_db_store_data (ex_producer 2) 20.5 1013.2 21 55.3
             (ex_store_env (Some SQLITE_BUSY)))))))) \<le> data_limit (ex_producer 2)"
  by (simp add: sensors_db_store_data_def ex_producer_def ex_store_env_def
        sqlite3_prepare_v2_def ex_two_rows_def SensorData_insert_row SQLITE_OK_def)

text \<open>
  C1, the amended claim. Let the ids of the table be distinct (its primary key) and let
  a store call return 0. If the limit \<open>L\<close> is positive and the trim statement runs
  without error, the table afterwards has \<open>min(L, n + 1)\<close> rows, hence at most \<open>L\<close>;
  they are rows of the table as the INSERT left it, unchanged and in their order; and
  every deleted row has a smaller id than every surviving row. If \<open>L \<le> 0\<close>, or if
  the trim statement fails, the table is the one the INSERT left: the old rows and the
  new one, nothing deleted.
\<close>

theorem C1_retention_trim:
  assumes "distinct (map col_id (SensorData (db self)))"
    and "sensors_db_store_data self t1 p t2 h env = (0, self', err)"
  shows "(0 < data_limit self \<and> trim_fault env = None \<longrightarrow>
            int (length (SensorData (db self'))) \<le> data_limit self \<and>
            length (SensorData (db self'))
              = min (nat (data_limit self)) (Suc (length (SensorData (db self)))) \<and>
            SensorData (db self')
              = filter (\<lambda>r. r \<in> set (SensorData (db self')))
                  (SensorData (insert_row (db self) (current_timestamp env) t1 p t2 h)) \<and>
            (\<forall>r\<in>set (SensorData (db self')).
               \<forall>q\<in>set (SensorData (insert_row (db self) (current_timestamp env) t1 p t2 h))
                    - set (SensorData (db self')).
                 col_id q < col_id r))
       \<and> (data_limit self \<le> 0 \<or> trim_fault env \<noteq> None \<longrightarrow>
            SensorData (db self')
              = SensorData (insert_row (db self) (current_timestamp env) t1 p t2 h))
       \<and> SensorData (insert_row (db self) (current_timestamp env) t1 p t2 h)
            = SensorData (db self) @
                [\<lparr>col_id = next_rowid (db self), col_timestamp = current_timestamp env,
                  col_bmp280_temperature = t1, col_bmp280_pressure = p,
                  col_htu21d_temperature = t2, col_htu21d_humidity = h\<rparr>]"
proof -
  let ?rows1 = "SensorData (insert_row (db self) (current_timestamp env) t1 p t2 h)"
  note s = store_data_success(2) [OF assms(2)]
  have d1: "distinct (map col_id ?rows1)"
    by (rule distinct_insert_row [OF assms(1)])
  have len1: "length ?rows1 = Suc (length (SensorData (db self)))"
    by (simp add: SensorData_insert_row)
  have trimmed: "SensorData (db self') = delete_not_in_latest ?rows1 (data_limit self)"
    if "0 < data_limit self" and "trim_fault env = None"
    using that s by simp
  have kept: "SensorData (db self') = ?rows1"
    if "data_limit self \<le> 0 \<or> trim_fault env \<noteq> None"
    using that s by (cases "trim_fault env") auto
  have filt: "delete_not_in_latest ?rows1 n
                = filter (\<lambda>r. r \<in> set (delete_not_in_latest ?rows1 n)) ?rows1" for n
    unfolding delete_not_in_latest_def by (rule filter_cong) auto
  show ?thesis
  proof (intro conjI impI)
    assume a: "0 < data_limit self \<and> trim_fault env = None"
    then have t: "SensorData (db self') = delete_not_in_latest ?rows1 (data_limit self)"
      and n: "0 \<le> data_limit self"
      using trimmed by auto
    show l: "length (SensorData (db self'))
              = min (nat (data_limit self)) (Suc (length (SensorData (db self))))"
      unfolding t using delete_not_in_latest_props(1) [OF d1 n] len1 by simp
    show "int (length (SensorData (db self'))) \<le> data_limit self"
      using l n by linarith
    show "SensorData (db self') = filter (\<lambda>r. r \<in> set (SensorData (db self'))) ?rows1"
      unfolding t by (rule filt)
    show "\<forall>r\<in>set (SensorData (db self')). \<forall>q\<in>set ?rows1 - set (SensorData (db self')).
            col_id q < col_id r"
      unfolding t by (rule delete_not_in_latest_props(2) [OF d1 n])
  next
    assume "data_limit self \<le> 0 \<or> trim_fault env \<noteq> None"
    then show "SensorData (db self') = ?rows1" by (rule kept)
  next
    show "?rows1 = SensorData (db self) @
                [\<lparr>col_id = next_rowid (db self), col_timestamp = current_timestamp env,
                  col_bmp280_temperature = t1, col_bmp280_pressure = p,
                  col_htu21d_temperature = t2, col_htu21d_humidity = h\<rparr>]"
      by (rule SensorData_insert_row)
  qed
qed

theorem C1_retention_trim_witness:
  "distinct (map col_id (SensorData (db (ex_producer 1)))) \<and>
   sensors_db_store_data (ex_producer 1) 20.5 1013.2 21 55.3 (ex_store_env None)
     = (0, \<lparr>db = \<lparr>SensorData = [ex_row 3 ''2026-10-30 14:05:02''], sqlite_sequence = 3\<rparr>,
           data_limit = 1, mode = SENSORS_DB_PRODUCER\<rparr>, []) \<and>
   0 < data_limit (ex_producer 1) \<and> trim_fault (ex_store_env None) = None \<and>
   int (length (SensorData (db
     \<lparr>db = \<lparr>SensorData = [ex_row 3 ''2026-10-30 14:05:02''], sqlite_sequence = 3\<rparr>,
      data_limit = 1, mode = SENSORS_DB_PRODUCER\<rparr>))) \<le> data_limit (ex_producer 1)"
proof -
  have d: "distinct (map col_id (SensorData (db (ex_producer 1))))"
    by (simp add: ex_producer_def ex_two_rows_def ex_row_def)
  have s: "sensors_db_store_data (ex_producer 1) 20.5 1013.2 21 55.3 (ex_store_env None)
     = (0, \<lparr>db = \<lparr>SensorData = [ex_row 3 ''2026-10-30 14:05:02''], sqlite_sequence = 3\<rparr>,
           data_limit = 1, mode = SENSORS_DB_PRODUCER\<rparr>, [])"
    by (simp add: sensors_db_store_data_def ex_producer_def ex_store_env_def
          sqlite3_prepare_v2_def ex_two_rows_def insert_row_def next_rowid_def Let_def
          SQLITE_OK_def ex_row_def delete_not_in_latest_def select_desc_limit_def)
  have t: "0 < data_limit (ex_producer 1) \<and> trim_fault (ex_store_env None) = None"
    by (simp add: ex_producer_def ex_store_env_def)
  from C1_retention_trim [OF d s] t d s show ?thesis
    by blast
qed

text \<open>
  C2 (error handling). The claim: when the row iteration of \<open>sensors_db_read_n\<close> fails
  after some rows have been copied, the call reports a hard error and not the partial
  count. The code does not: the loop leaves on any step result other than a row, the
  result of \<open>sqlite3_finalize\<close> is dropped, and the count reached so far is returned.
  With two rows in the table, room for two samples and an I/O error at the second step,
  the call returns 1.
\<close>

theorem C2_read_n_partial_count:
  "fst (sensors_db_read_n (ex_producer 0) Map.empty 2
          (ex_read_env None (Some (1, SQLITE_IOERR)))) = 1"
  by (simp add: sensors_db_read_n_def ex_producer_def ex_two_rows_def ex_read_env_def
        prepare_OK_iff select_desc_limit_def ex_row_def read_n_loop.simps)

text \<open>
  C3 (functional correctness). The claim: a successful \<open>sensors_db_read_n\<close> returns
  \<open>min(max_samples, total_rows)\<close>, writes at most \<open>max_samples\<close> entries and stops
  once that many have been produced. For \<open>max_samples \<ge> 0\<close> and a read without a
  failed step the count is the claimed one (\<open>read_n_count_nonneg\<close>). But the loop copies
  the row before it compares the count with \<open>max_samples\<close>, so it misses its own bound
  whenever a row arrives while the bound is already reached: with \<open>max_samples = -1\<close>
  on a table of two rows the call writes cell 0 and returns 1.
\<close>

theorem C3_read_n_negative_bound:
  "sensors_db_read_n (ex_producer 0) Map.empty (- 1) (ex_read_env None None)
     = (1, [0 \<mapsto> copy_columns (ex_row 2 ''2026-10-30 14:05:01'')]) \<and>
   (1 :: int) \<noteq> min (- 1) (int (length (SensorData (db (ex_producer 0)))))"
  by (simp add: sensors_db_read_n_def ex_producer_def ex_two_rows_def ex_read_env_def
        prepare_OK_iff select_desc_limit_def ex_row_def read_n_loop.simps)

text \<open>
  C4 (functional correctness), as amended. The claim as written, that the \<open>N\<close>
  samples read back are ordered strictly descending by id, fails for the \<open>id\<close> fields
  of the samples once the row ids leave the range of a C \<open>int\<close>: the field is filled
  by \<open>sqlite3_column_int\<close>. Here the counter of the store file stands at 2147483646,
  two store calls return 0 and insert the ids 2147483647 and 2147483648, and the read
  of two samples returns the ids -2147483648 and 2147483647, in this order.
\<close>

theorem C4_counterexample:
  "fst (sensors_db_open [''/var/lib/sensors.db'' \<mapsto> ex_near_wrap] ''/var/lib/sensors.db''
          SENSORS_DB_PRODUCER 0 ex_open_env) = Some ex_wrap_fresh \<and>
   fst (store_all ex_wrap_fresh ex_calls) = [0, 0] \<and>
   fst (sensors_db_read_n (snd (store_all ex_wrap_fresh ex_calls)) Map.empty 2
          (ex_read_env None None)) = 2 \<and>
   map_option id_field
     (snd (sensors_db_read_n (snd (store_all ex_wrap_fresh ex_calls)) Map.empty 2
             (ex_read_env None None)) 0) = Some (- 2147483648) \<and>
   map_option id_field
     (snd (sensors_db_read_n (snd (store_all ex_wrap_fresh ex_calls)) Map.empty 2
             (ex_read_env None None)) 1) = Some 2147483647"
  by (simp add: sensors_db_open_def ex_open_env_def ex_wrap_fresh_def ex_near_wrap_def
        ex_calls_def ex_store_env_def ex_read_env_def sensors_db_store_data_def
        sqlite3_prepare_v2_def SQLITE_OK_def insert_row_def next_rowid_def Let_def
        sensors_db_read_n_def select_desc_limit_def read_n_loop.simps copy_columns_def
        sqlite3_column_int_def)

text \<open>
  C4, the amended claim. A Producer handle is opened with limit 0, \<open>N\<close> store calls
  all return 0, and \<open>sensors_db_read_n\<close> is asked for \<open>N\<close> samples, the engine
  reporting no error during the read. Then the table is the old table followed by \<open>N\<close>
  new rows holding the measurements of the calls in call order; the read returns \<open>N\<close>;
  cell \<open>i < N\<close> holds the copy of the \<open>i\<close>-th new row counted from the last, so the
  samples are the insertion order reversed; their row ids are strictly descending; no
  other cell is written; and the \<open>id\<close> fields of the samples are strictly descending
  provided the ids of the new rows fit a signed 32-bit \<open>int\<close>.
\<close>

theorem C4_read_back_reversed:
  assumes "sensors_db_open fs db_file SENSORS_DB_PRODUCER 0 oenv = (Some self, fs', err)"
    and "store_all self calls = (rcs, self')" and "\<forall>rc\<in>set rcs. rc = 0"
    and "sel_prepare_fault renv = None" and "sel_step_fault renv = None"
  shows "\<exists>new. SensorData (db self') = SensorData (db self) @ new \<and>
           map measurements new = map fst calls \<and>
           sorted_wrt (>) (map col_id (rev new)) \<and>
           sensors_db_read_n self' out_array (int (length calls)) renv
             = (int (length calls),
                \<lambda>i. if i < length calls then Some (copy_columns (rev new ! i))
                     else out_array i) \<and>
           ((\<forall>r\<in>set new. - (2 ^ 31) \<le> col_id r \<and> col_id r < 2 ^ 31) \<longrightarrow>
              sorted_wrt (>) (map (\<lambda>r. id_field (copy_columns r)) (rev new)))"
proof -
  note o = sensors_db_open_Some [OF assms(1)]
  from store_all_rows [OF o(1) _ assms(2,3)] o(2) obtain new where
    n1: "SensorData (db self') = SensorData (db self) @ new"
    and n2: "map measurements new = map fst calls"
    and n3: "sorted_wrt (<) (map col_id new)"
    and n4: "\<forall>r\<in>set (SensorData (db self)). \<forall>q\<in>set new. col_id r < col_id q"
    by auto
  from n2 have len: "length new = length calls"
    by (metis length_map)
  have desc: "sorted_wrt (>) (map col_id (rev new))"
    using n3 unfolding rev_map [symmetric] sorted_wrt_rev .
  have sel: "select_desc_limit (SensorData (db self')) (int (length calls)) = rev new"
    unfolding n1 len [symmetric] by (rule select_desc_limit_append [OF n3 n4])
  have k: "consumed (length calls) (int (length calls)) 0 = length calls"
    by (simp add: consumed_def)
  have rd: "sensors_db_read_n self' out_array (int (length calls)) renv
             = (int (length calls),
                \<lambda>i. if i < length calls then Some (copy_columns (rev new ! i))
                     else out_array i)"
    by (simp add: read_n_no_fault [OF assms(4,5)] sel len k cong: if_cong)
  have ids: "sorted_wrt (>) (map (\<lambda>r. id_field (copy_columns r)) (rev new))"
    if "\<forall>r\<in>set new. - (2 ^ 31) \<le> col_id r \<and> col_id r < 2 ^ 31"
  proof -
    have "map (\<lambda>r. id_field (copy_columns r)) (rev new) = map col_id (rev new)"
        using that by (intro map_cong refl) (simp add: copy_columns_def sqlite3_column_int_in_range)
    then show ?thesis using desc by (simp only:)
  qed
  from n1 n2 desc rd ids show ?thesis by blast
qed

theorem C4_read_back_reversed_witness:
  "sensors_db_open Map.empty ''/var/lib/sensors.db'' SENSORS_DB_PRODUCER 0 ex_open_env
     = (Some ex_fresh, [''/var/lib/sensors.db'' \<mapsto> empty_database], []) \<and>
   store_all ex_fresh ex_calls = ([0, 0], ex_stored) \<and>
   sel_prepare_fault (ex_read_env None None) = None \<and>
   sel_step_fault (ex_read_env None None) = None \<and>
   sensors_db_read_n ex_stored Map.empty (int (length ex_calls)) (ex_read_env None None)
     = (2, [0 \<mapsto> copy_columns (SensorData (db ex_stored) ! 1),
            1 \<mapsto> copy_columns (SensorData (db ex_stored) ! 0)]) \<and>
   sorted_wrt (>) (map (\<lambda>r. id_field (copy_columns r)) (rev (SensorData (db ex_stored))))"
proof -
  have o: "sensors_db_open Map.empty ''/var/lib/sensors.db'' SENSORS_DB_PRODUCER 0 ex_open_env
     = (Some ex_fresh, [''/var/lib/sensors.db'' \<mapsto> empty_database], [])"
    by (simp add: sensors_db_open_def ex_open_env_def ex_fresh_def)
  have s: "store_all ex_fresh ex_calls = ([0, 0], ex_stored)"
    by (simp add: ex_calls_def ex_fresh_def ex_stored_def ex_store_env_def ex_row_def
          sensors_db_store_data_def sqlite3_prepare_v2_def SQLITE_OK_def insert_row_def
          next_rowid_def empty_database_def Let_def)
  have z: "\<forall>rc\<in>set [0, 0 :: int]. rc = 0"
    by simp
  have p: "sel_prepare_fault (ex_read_env None None) = None"
    and f: "sel_step_fault (ex_read_env None None) = None"
    by (simp_all add: ex_read_env_def)
  from C4_read_back_reversed [OF o s z p f, of Map.empty] obtain new where
    n: "SensorData (db ex_stored) = SensorData (db ex_fresh) @ new"
    and r: "sensors_db_read_n ex_stored Map.empty (int (length ex_calls)) (ex_read_env None None)
             = (int (length ex_calls),
                \<lambda>i. if i < length ex_calls then Some (copy_columns (rev new ! i)) else None)"
    and i: "(\<forall>r\<in>set new. - (2 ^ 31) \<le> col_id r \<and> col_id r < 2 ^ 31) \<longrightarrow>
              sorted_wrt (>) (map (\<lambda>r. id_field (copy_columns r)) (rev new))"
    by auto
  from n have new: "new = SensorData (db ex_stored)"
    by (simp add: ex_fresh_def empty_database_def)
  have rng: "\<forall>r\<in>set new. - (2 ^ 31) \<le> col_id r \<and> col_id r < 2 ^ 31"
    unfolding new by (simp add: ex_stored_def ex_row_def)
  have rd: "sensors_db_read_n ex_stored Map.empty (int (length ex_calls)) (ex_read_env None None)
     = (2, [0 \<mapsto> copy_columns (SensorData (db ex_stored) ! 1),
            1 \<mapsto> copy_columns (SensorData (db ex_stored) ! 0)])"
    unfolding r new by (auto simp: ex_calls_def ex_stored_def fun_eq_iff)
  from i rng have "sorted_wrt (>) (map (\<lambda>r. id_field (copy_columns r)) (rev new))"
    by blast
  then show ?thesis
    using o s p f rd unfolding new by simp
qed

text \<open>
  C5 (error handling). On a handle whose mode is not Producer,
  \<open>sensors_db_store_data\<close> returns -1, prints "DB is read-only" and leaves the handle,
  and with it table SensorData, as it was.
\<close>

theorem C5_store_on_consumer:
  "mode self \<noteq> SENSORS_DB_PRODUCER \<Longrightarrow>
     sensors_db_store_data self t1 p t2 h env = (- 1, self, [''DB is read-only'' @ newline])"
  by (simp add: sensors_db_store_data_def)

theorem C5_store_on_consumer_witness:
  "mode (ex_consumer ex_two_rows) \<noteq> SENSORS_DB_PRODUCER \<and>
   sensors_db_store_data (ex_consumer ex_two_rows) 20.5 1013.2 21 55.3 (ex_store_env None)
     = (- 1, ex_consumer ex_two_rows, [''DB is read-only'' @ newline])"
  using C5_store_on_consumer [where self = "ex_consumer ex_two_rows" and ?t1.0 = "20.5"
      and p = "1013.2" and ?t2.0 = 21 and h = "55.3" and env = "ex_store_env None"]
  by (simp add: ex_consumer_def)

text \<open>
  C6 (error handling). Where no file exists at the path, \<open>sensors_db_open\<close> in
  Consumer mode returns \<open>NULL\<close> and leaves the file system as it was; the line it
  prints is "Database does not exist: <path>", unless the allocation of the handle has
  failed before the path is looked at.
\<close>

theorem C6_open_consumer_missing:
  "fs db_file = None \<Longrightarrow>
     sensors_db_open fs db_file SENSORS_DB_CONSUMER limit env =
       (None, fs,
        if calloc_fails env then [] else [''Database does not exist: '' @ db_file @ newline])"
  by (simp add: sensors_db_open_def)

theorem C6_open_consumer_missing_witness:
  "Map.empty ''/var/lib/sensors.db'' = (None :: sqlite3 option) \<and>
   sensors_db_open Map.empty ''/var/lib/sensors.db'' SENSORS_DB_CONSUMER 0 ex_open_env =
     (None, Map.empty, [''Database does not exist: /var/lib/sensors.db'' @ newline])"
  using C6_open_consumer_missing [where fs = Map.empty and db_file = "''/var/lib/sensors.db''"
      and limit = 0 and env = ex_open_env]
  by (simp add: ex_open_env_def)

text \<open>
  C7 (error handling). \<open>sensors_db_store_data\<close> returns 0 exactly when the handle is a
  Producer, the INSERT compiles and its finalization reports no error; the fault of the
  trim statement has no influence on the return value; and when the call returns 0 with
  a failed trim, the database is the one the INSERT left, with the new row in it.
\<close>

theorem C7_store_success_iff:
  "(fst (sensors_db_store_data self t1 p t2 h env) = 0) =
     (mode self = SENSORS_DB_PRODUCER \<and>
      sqlite3_prepare_v2 (ins_prepare_fault env) = SQLITE_OK \<and>
      sqlite3_finalize
        (fst (step_insert (db self) (ins_step_fault env) (current_timestamp env) t1 p t2 h))
        = SQLITE_OK)
   \<and> fst (sensors_db_store_data self t1 p t2 h (env\<lparr>trim_fault := f\<rparr>))
       = fst (sensors_db_store_data self t1 p t2 h env)
   \<and> (fst (sensors_db_store_data self t1 p t2 h env) = 0 \<and> trim_fault env \<noteq> None \<longrightarrow>
        db (fst (snd (sensors_db_store_data self t1 p t2 h env)))
          = insert_row (db self) (current_timestamp env) t1 p t2 h)"
  by (cases "ins_step_fault env"; cases "trim_fault env")
     (simp_all add: sensors_db_store_data_def prepare_OK_iff result_code_not_OK
        split: prod.splits)

theorem C7_store_success_iff_witness:
  "fst (sensors_db_store_data (ex_producer 1) 20.5 1013.2 21 55.3
          (ex_store_env (Some SQLITE_BUSY))) = 0 \<and>
   trim_fault (ex_store_env (Some SQLITE_BUSY)) \<noteq> None \<and>
   db (fst (snd (sensors_db_store_data (ex_producer 1) 20.5 1013.2 21 55.3
          (ex_store_env (Some SQLITE_BUSY)))))
     = insert_row ex_two_rows ''2026-10-30 14:05:02'' 20.5 1013.2 21 55.3"
  using C7_store_success_iff [where self = "ex_producer 1" and ?t1.0 = "20.5"
      and p = "1013.2" and ?t2.0 = 21 and h = "55.3"
      and env = "ex_store_env (Some SQLITE_BUSY)" and f = None]
  by (simp add: ex_producer_def ex_store_env_def prepare_OK_iff)

text \<open>
  C8 (safety). The claim: the timestamp field of a returned sample holds the stored
  text cut to at most 31 usable characters of the 32-byte array, and the copy stays
  inside the array. The copy does stay inside (\<open>length_strncpy\<close>), and a text
  shorter than 32 characters arrives whole and terminated (\<open>strncpy_terminated\<close>).
  But the copy is \<open>strncpy\<close> with the full size of the array as its bound, so a
  stored text of 32 characters fills the whole array and leaves no terminating NUL in
  it: the successful read below returns 32 characters, not 31.
\<close>

theorem C8_timestamp_unterminated:
  "fst (sensors_db_read_latest (ex_consumer ex_long_timestamp) ex_sample
          (ex_read_env None None)) = 0 \<and>
   timestamp (snd (sensors_db_read_latest (ex_consumer ex_long_timestamp) ex_sample
          (ex_read_env None None))) = ''2026-10-30 14:05:00.000000+00:00'' \<and>
   NUL \<notin> set (timestamp (snd (sensors_db_read_latest (ex_consumer ex_long_timestamp)
          ex_sample (ex_read_env None None))))"
  by (simp add: sensors_db_read_latest_def ex_long_timestamp_def ex_read_env_def
        ex_consumer_def sqlite3_prepare_v2_def select_desc_limit_def ex_row_def
        copy_columns_def strncpy_def c_str_def NUL_def SQLITE_OK_def)

text \<open>
  C9 (error handling), as amended. The claim as written, that the returned failure
  value tells the kinds of error apart, fails: \<open>sensors_db_read_latest\<close> returns -1 on
  an empty table and -1 when the statement does not compile.
\<close>

theorem C9_counterexample:
  "fst (sensors_db_read_latest (ex_consumer empty_database) ex_sample
          (ex_read_env None None)) = - 1 \<and>
   fst (sensors_db_read_latest (ex_consumer empty_database) ex_sample
          (ex_read_env (Some SQLITE_ERROR) None)) = - 1"
  by (simp add: sensors_db_read_latest_def prepare_OK_iff empty_database_def
        select_desc_limit_def ex_consumer_def ex_read_env_def)

text \<open>
  C9, the amended claim. A failing call reports its failure by a value that does not
  tell the causes apart: \<open>sensors_db_store_data\<close> returns -1 when the handle is not a
  Producer, when the INSERT does not compile and when its finalization reports an
  error; \<open>sensors_db_read_latest\<close> returns -1 when the statement does not compile and
  when the table is empty; \<open>sensors_db_read_n\<close> returns -1 when the statement does not
  compile; \<open>sensors_db_open\<close> returns \<open>NULL\<close> in Consumer mode when the file is
  missing and when the open fails, and in Producer mode when the open or the creation
  of the table fails.
\<close>

theorem C9_failure_values:
  "(mode self \<noteq> SENSORS_DB_PRODUCER \<or>
    sqlite3_prepare_v2 (ins_prepare_fault env) \<noteq> SQLITE_OK \<or>
    sqlite3_finalize
      (fst (step_insert (db self) (ins_step_fault env) (current_timestamp env) t1 p t2 h))
      \<noteq> SQLITE_OK
    \<longrightarrow> fst (sensors_db_store_data self t1 p t2 h env) = - 1)
   \<and> (sqlite3_prepare_v2 (sel_prepare_fault renv) \<noteq> SQLITE_OK \<or> SensorData (db self) = []
      \<longrightarrow> fst (sensors_db_read_latest self out renv) = - 1)
   \<and> (sqlite3_prepare_v2 (sel_prepare_fault renv) \<noteq> SQLITE_OK
      \<longrightarrow> fst (sensors_db_read_n self out_array max_samples renv) = - 1)
   \<and> (fs db_file = None \<or> open_fault oenv \<noteq> None
      \<longrightarrow> fst (sensors_db_open fs db_file SENSORS_DB_CONSUMER limit oenv) = None)
   \<and> (open_fault oenv \<noteq> None \<or> create_fault oenv \<noteq> None
      \<longrightarrow> fst (sensors_db_open fs db_file SENSORS_DB_PRODUCER limit oenv) = None)"
proof (intro conjI impI)
  assume "mode self \<noteq> SENSORS_DB_PRODUCER \<or>
    sqlite3_prepare_v2 (ins_prepare_fault env) \<noteq> SQLITE_OK \<or>
    sqlite3_finalize
      (fst (step_insert (db self) (ins_step_fault env) (current_timestamp env) t1 p t2 h))
      \<noteq> SQLITE_OK"
  then show "fst (sensors_db_store_data self t1 p t2 h env) = - 1"
    by (auto simp: sensors_db_store_data_def split: prod.splits)
next
  assume "sqlite3_prepare_v2 (sel_prepare_fault renv) \<noteq> SQLITE_OK \<or> SensorData (db self) = []"
  then show "fst (sensors_db_read_latest self out renv) = - 1"
    by (cases "([] :: db_row list, sel_step_fault renv)" rule: sqlite3_step.cases)
       (auto simp: sensors_db_read_latest_def select_desc_limit_def)
next
  assume "sqlite3_prepare_v2 (sel_prepare_fault renv) \<noteq> SQLITE_OK"
  then show "fst (sensors_db_read_n self out_array max_samples renv) = - 1"
    by (simp add: sensors_db_read_n_def)
next
  assume "fs db_file = None \<or> open_fault oenv \<noteq> None"
  then show "fst (sensors_db_open fs db_file SENSORS_DB_CONSUMER limit oenv) = None"
    by (auto simp: sensors_db_open_def split: option.splits)
next
  assume "open_fault oenv \<noteq> None \<or> create_fault oenv \<noteq> None"
  then show "fst (sensors_db_open fs db_file SENSORS_DB_PRODUCER limit oenv) = None"
    by (auto simp: sensors_db_open_def Let_def split: option.splits)
qed

theorem C9_failure_values_witness:
  "mode (ex_consumer empty_database) \<noteq> SENSORS_DB_PRODUCER \<and>
   fst (sensors_db_store_data (ex_consumer empty_database) 20.5 1013.2 21 55.3
          (ex_store_env None)) = - 1 \<and>
   sqlite3_prepare_v2 (sel_prepare_fault (ex_read_env (Some SQLITE_ERROR) None)) \<noteq> SQLITE_OK \<and>
   fst (sensors_db_read_latest (ex_consumer empty_database) ex_sample
          (ex_read_env (Some SQLITE_ERROR) None)) = - 1 \<and>
   fst (sensors_db_read_n (ex_consumer empty_database) Map.empty 4
          (ex_read_env (Some SQLITE_ERROR) None)) = - 1 \<and>
   open_fault ex_open_fails \<noteq> None \<and>
   fst (sensors_db_open Map.empty ''/var/lib/sensors.db'' SENSORS_DB_CONSUMER 0 ex_open_fails)
     = None \<and>
   fst (sensors_db_open Map.empty ''/var/lib/sensors.db'' SENSORS_DB_PRODUCER 0 ex_open_fails)
     = None"
  using C9_failure_values [where self = "ex_consumer empty_database" and ?t1.0 = "20.5"
      and p = "1013.2" and ?t2.0 = 21 and h = "55.3" and env = "ex_store_env None"
      and renv = "ex_read_env (Some SQLITE_ERROR) None" and out = ex_sample
      and out_array = Map.empty and max_samples = 4 and fs = Map.empty
      and db_file = "''/var/lib/sensors.db''" and limit = 0 and oenv = ex_open_fails]
  by (simp add: ex_consumer_def ex_read_env_def ex_open_fails_def prepare_OK_iff)

text \<open>
  C10 (safety). For a negative \<open>max_samples\<close> and a statement that compiles, the
  SELECT is not limited (it delivers every row, greatest id first). On an empty table
  \<open>sensors_db_read_n\<close> returns 0 and writes nothing. On a non-empty table whose first
  step works it copies the row with the greatest id into cell 0, writes no other cell,
  and returns 1.
\<close>

theorem C10_read_n_negative:
  assumes "max_samples < 0" and "sel_prepare_fault env = None"
  shows "select_desc_limit (SensorData (db self)) max_samples
           = rev (sort_key col_id (SensorData (db self)))
       \<and> (SensorData (db self) = [] \<longrightarrow>
            sensors_db_read_n self out_array max_samples env = (0, out_array))
       \<and> (SensorData (db self) \<noteq> [] \<and> (\<forall>e. sel_step_fault env \<noteq> Some (0, e)) \<longrightarrow>
            sensors_db_read_n self out_array max_samples env
              = (1, out_array(0 \<mapsto> copy_columns (last (sort_key col_id (SensorData (db self)))))))"
proof (intro conjI impI)
  show sel: "select_desc_limit (SensorData (db self)) max_samples
           = rev (sort_key col_id (SensorData (db self)))"
    using assms(1) by (simp add: select_desc_limit_def)
  show "sensors_db_read_n self out_array max_samples env = (0, out_array)"
    if "SensorData (db self) = []"
    using that assms(2) sel
    by (simp add: sensors_db_read_n_def prepare_OK_iff read_n_loop_Nil)
  show "sensors_db_read_n self out_array max_samples env
          = (1, out_array(0 \<mapsto> copy_columns (last (sort_key col_id (SensorData (db self))))))"
    if h: "SensorData (db self) \<noteq> [] \<and> (\<forall>e. sel_step_fault env \<noteq> Some (0, e))"
  proof -
    from h have "sort_key col_id (SensorData (db self)) \<noteq> []"
      by (metis length_sort length_0_conv)
    then obtain r rs where rs: "rev (sort_key col_id (SensorData (db self))) = r # rs"
      and r: "r = last (sort_key col_id (SensorData (db self)))"
      by (cases "rev (sort_key col_id (SensorData (db self)))") (auto simp: last_rev)
    from h obtain f' where "sqlite3_step (r # rs, sel_step_fault env) = (SQLITE_ROW r, (rs, f'))"
      using sqlite3_step_first_row by blast
    then have "read_n_loop (r # rs, sel_step_fault env) max_samples 0 out_array
                 = (Suc 0, out_array(0 \<mapsto> copy_columns r), (rs, f'))"
      using assms(1) by (subst read_n_loop.simps) simp
    then show ?thesis
      using assms(2) by (simp add: sensors_db_read_n_def prepare_OK_iff sel rs r)
  qed
qed

theorem C10_read_n_negative_witness:
  "(- 3 :: int) < 0 \<and> sel_prepare_fault (ex_read_env None None) = None \<and>
   SensorData (db (ex_producer 0)) \<noteq> [] \<and>
   sel_step_fault (ex_read_env None None) = None \<and>
   sensors_db_read_n (ex_producer 0) Map.empty (- 3) (ex_read_env None None)
     = (1, [0 \<mapsto> copy_columns (ex_row 2 ''2026-10-30 14:05:01'')]) \<and>
   sensors_db_read_n (ex_consumer empty_database) Map.empty (- 3) (ex_read_env None None)
     = (0, Map.empty)"
  using C10_read_n_negative [where max_samples = "- 3" and env = "ex_read_env None None"
      and self = "ex_producer 0" and out_array = Map.empty]
    C10_read_n_negative [where max_samples = "- 3" and env = "ex_read_env None None"
      and self = "ex_consumer empty_database" and out_array = Map.empty]
  by (simp add: ex_read_env_def ex_producer_def ex_two_rows_def ex_row_def
        ex_consumer_def empty_database_def)

end
